theory Spec2Isabelle
  imports Main
begin

section \<open>Data model of \<open>singer_sdk/helpers/_singer.py\<close>\<close>

text \<open>
  A breadcrumb is a tuple of strings (\<open>Breadcrumb = Tuple[str, ...]\<close>); the empty tuple is
  the stream itself.
\<close>

type_synonym Breadcrumb = "string list"

datatype InclusionType = AVAILABLE | AUTOMATIC | UNSUPPORTED

text \<open>
  The dataclass \<open>Metadata\<close> and its subclass \<open>StreamMetadata\<close>. Every field defaults to
  \<open>None\<close>. The union \<open>AnyMetadata\<close> is a datatype with one constructor per class.
\<close>

record Metadata =
  inclusion :: "InclusionType option"
  selected :: "bool option"
  selected_by_default :: "bool option"

record StreamMetadata = Metadata +
  table_key_properties :: "string list option"
  forced_replication_method :: "string option"
  valid_replication_keys :: "string list option"
  schema_name :: "string option"

datatype AnyMetadata = Plain Metadata | Stream StreamMetadata

definition Metadata_init :: Metadata where
  "Metadata_init = \<lparr>inclusion = None, selected = None, selected_by_default = None\<rparr>"

definition StreamMetadata_init :: StreamMetadata where
  "StreamMetadata_init =
     \<lparr>inclusion = None, selected = None, selected_by_default = None,
      table_key_properties = None, forced_replication_method = None,
      valid_replication_keys = None, schema_name = None\<rparr>"

text \<open>Attribute access on a value of the union: the three fields both classes have.\<close>

fun md_inclusion :: "AnyMetadata \<Rightarrow> InclusionType option" where
  "md_inclusion (Plain m) = inclusion m"
| "md_inclusion (Stream s) = inclusion s"

fun md_selected :: "AnyMetadata \<Rightarrow> bool option" where
  "md_selected (Plain m) = selected m"
| "md_selected (Stream s) = selected s"

fun md_selected_by_default :: "AnyMetadata \<Rightarrow> bool option" where
  "md_selected_by_default (Plain m) = selected_by_default m"
| "md_selected_by_default (Stream s) = selected_by_default s"

subsection \<open>Dictionaries\<close>

text \<open>
  A Python \<open>dict\<close> keeps its keys in insertion order, and \<open>to_list\<close> and iteration depend
  on that order, so a dictionary is an association list. \<open>d[k] = v\<close> overwrites the value
  in place when \<open>k\<close> is a key and appends the pair otherwise; lookup is \<open>map_of\<close>.
\<close>

fun dict_set :: "('k \<times> 'v) list \<Rightarrow> 'k \<Rightarrow> 'v \<Rightarrow> ('k \<times> 'v) list" where
  "dict_set [] k v = [(k, v)]"
| "dict_set ((k', v') # d) k v =
     (if k' = k then (k', v) # d else (k', v') # dict_set d k v)"

text \<open>\<open>dict(pairs)\<close>: the pairs are stored one after the other.\<close>

definition dict_of_pairs :: "('k \<times> 'v) list \<Rightarrow> ('k \<times> 'v) list" where
  "dict_of_pairs ps = foldl (\<lambda>d (k, v). dict_set d k v) [] ps"

type_synonym MetadataMapping = "(Breadcrumb \<times> AnyMetadata) list"

type_synonym SelectionMask = "(Breadcrumb \<times> bool) list"

text \<open>The slice \<open>breadcrumb[:-2]\<close>: all but the last two segments, empty when there are at
  most two.\<close>

definition parent_breadcrumb :: "Breadcrumb \<Rightarrow> Breadcrumb" where
  "parent_breadcrumb breadcrumb = take (length breadcrumb - 2) breadcrumb"

section \<open>The selection mask\<close>

text \<open>
  \<open>SelectionMask.__getitem__\<close> with its \<open>__missing__\<close> hook: a breadcrumb that is no key
  falls back to the value at its parent when it has at least two segments, and to \<open>True\<close>
  otherwise. The hook stores nothing.
\<close>

function SelectionMask_getitem :: "SelectionMask \<Rightarrow> Breadcrumb \<Rightarrow> bool" where
  "SelectionMask_getitem self breadcrumb =
     (case map_of self breadcrumb of
        Some v \<Rightarrow> v
      | None \<Rightarrow>
          (if length breadcrumb \<ge> 2
           then SelectionMask_getitem self (parent_breadcrumb breadcrumb)
           else True))"
  by pat_completeness auto
termination
  by (relation "measure (\<lambda>(self, breadcrumb). length breadcrumb)")
     (auto simp: parent_breadcrumb_def)

section \<open>The metadata mapping\<close>

subsection \<open>Lookup\<close>

text \<open>
  \<open>self.get(key, default)\<close> is the builtin \<open>dict.get\<close>: it never calls \<open>__missing__\<close> and
  never stores. It is written in state-passing style like the subscript below, so that
  the methods built on either of them return the mapping they leave behind.
\<close>

definition MetadataMapping_get ::
  "MetadataMapping \<Rightarrow> Breadcrumb \<Rightarrow> AnyMetadata \<Rightarrow> AnyMetadata \<times> MetadataMapping" where
  "MetadataMapping_get self breadcrumb dflt =
     ((case map_of self breadcrumb of Some v \<Rightarrow> v | None \<Rightarrow> dflt), self)"

text \<open>
  \<open>self[breadcrumb]\<close>: \<open>dict.__getitem__\<close> returns the stored value, and for an absent key
  calls \<open>__missing__\<close>, which stores a default record (\<open>StreamMetadata()\<close> for the empty
  breadcrumb, \<open>Metadata()\<close> otherwise) and subscripts again.
\<close>

definition missing_default :: "Breadcrumb \<Rightarrow> AnyMetadata" where
  "missing_default breadcrumb =
     (if breadcrumb \<noteq> [] then Plain Metadata_init else Stream StreamMetadata_init)"

function MetadataMapping_getitem ::
  "MetadataMapping \<Rightarrow> Breadcrumb \<Rightarrow> AnyMetadata \<times> MetadataMapping" where
  "MetadataMapping_getitem self breadcrumb =
     (case map_of self breadcrumb of
        Some v \<Rightarrow> (v, self)
      | None \<Rightarrow>
          MetadataMapping_getitem
            (dict_set self breadcrumb (missing_default breadcrumb)) breadcrumb)"
  by pat_completeness auto
termination
proof (relation "measure (\<lambda>(self, breadcrumb). if map_of self breadcrumb = None then 1 else 0)")
  show "wf (measure (\<lambda>(self :: MetadataMapping, breadcrumb). if map_of self breadcrumb = None then 1 else 0))"
    by simp
next
  fix self :: MetadataMapping and breadcrumb :: Breadcrumb
  assume absent: "map_of self breadcrumb = None"
  have stored: "map_of (dict_set d k v) k = Some v" for d :: MetadataMapping and k v
    by (induction d) auto
  show "((dict_set self breadcrumb (missing_default breadcrumb), breadcrumb), (self, breadcrumb))
        \<in> measure (\<lambda>(self, breadcrumb). if map_of self breadcrumb = None then 1 else 0)"
    using absent by (simp add: stored)
qed

subsection \<open>Selection resolution\<close>

text \<open>
  \<open>_breadcrumb_is_selected\<close>. The method returns the resolved flag together with the
  mapping as the call leaves it. The \<open>logger.debug\<close> calls only report and are left out.
  \<open>parent_value\<close> is \<open>None\<close> for the stream and the parent's resolved flag otherwise;
  \<open>parent_value or False\<close> is \<open>False\<close> for \<open>None\<close> and the flag itself otherwise.
\<close>

function breadcrumb_is_selected ::
  "MetadataMapping \<Rightarrow> Breadcrumb \<Rightarrow> bool \<times> MetadataMapping" where
  "breadcrumb_is_selected self breadcrumb =
     (if self = [] then (True, self)
      else
        (case MetadataMapping_get self breadcrumb (Plain Metadata_init) of
           (md_entry, self1) \<Rightarrow>
        (case (if length breadcrumb > 0
               then (case breadcrumb_is_selected self1 (parent_breadcrumb breadcrumb) of
                       (v, self2) \<Rightarrow> (Some v, self2))
               else (None, self1)) of
           (parent_value, self2) \<Rightarrow>
             if parent_value = Some False then (False, self2)
             else if md_inclusion md_entry = Some UNSUPPORTED then (False, self2)
             else if md_inclusion md_entry = Some AUTOMATIC then (True, self2)
             else (case md_selected md_entry of
                     Some s \<Rightarrow> (s, self2)
                   | None \<Rightarrow>
                       (case md_selected_by_default md_entry of
                          Some s \<Rightarrow> (s, self2)
                        | None \<Rightarrow>
                            (case parent_value of
                               Some v \<Rightarrow> (v, self2)
                             | None \<Rightarrow> (False, self2)))))))"
  by pat_completeness auto
termination
  by (relation "measure (\<lambda>(self, breadcrumb). length breadcrumb)")
     (auto simp: parent_breadcrumb_def)

text \<open>
  \<open>resolve_selection\<close>: the generator walks the keys of the mapping in order, resolves
  each, and \<open>SelectionMask(...)\<close> stores the pairs.
\<close>

fun resolve_items ::
  "Breadcrumb list \<Rightarrow> MetadataMapping \<Rightarrow> (Breadcrumb \<times> bool) list \<times> MetadataMapping" where
  "resolve_items [] self = ([], self)"
| "resolve_items (breadcrumb # rest) self =
     (case breadcrumb_is_selected self breadcrumb of
        (v, self1) \<Rightarrow>
          (case resolve_items rest self1 of
             (items, self2) \<Rightarrow> ((breadcrumb, v) # items, self2)))"

definition resolve_selection :: "MetadataMapping \<Rightarrow> SelectionMask \<times> MetadataMapping" where
  "resolve_selection self =
     (case resolve_items (map fst self) self of
        (items, self1) \<Rightarrow> (dict_of_pairs items, self1))"

text \<open>The resolved flag of a breadcrumb, and the record \<open>_breadcrumb_is_selected\<close> reads
  for it (\<open>self.get(breadcrumb, Metadata())\<close>).\<close>

abbreviation resolved :: "MetadataMapping \<Rightarrow> Breadcrumb \<Rightarrow> bool" where
  "resolved self breadcrumb \<equiv> fst (breadcrumb_is_selected self breadcrumb)"

abbreviation metadata_of :: "MetadataMapping \<Rightarrow> Breadcrumb \<Rightarrow> AnyMetadata" where
  "metadata_of self breadcrumb \<equiv>
     fst (MetadataMapping_get self breadcrumb (Plain Metadata_init))"

section \<open>Documents and errors\<close>

text \<open>
  The values of a \<open>dict[str, Any]\<close> that came from a JSON document. \<open>JNull\<close> is Python's
  \<open>None\<close>. An object is the association list of a \<open>dict\<close>, its keys distinct and in
  document order. Numbers are integers here; no function below computes with them.
\<close>

datatype json =
    JNull
  | JBool bool
  | JInt int
  | JStr string
  | JList "json list"
  | JObj "(string \<times> json) list"

text \<open>
  The exceptions the parsing functions raise. \<open>Untyped\<close> is no exception of the source:
  the dataclasses check nothing, so a value that does not have the annotated type of its
  field (or a breadcrumb segment that is no string) is stored as it is; the typed records
  here cannot hold such a value, and the model stops with \<open>Untyped\<close> instead.
\<close>

datatype error = KeyError string | TypeError | AttributeError | Untyped

definition bind_err :: "error + 'a \<Rightarrow> ('a \<Rightarrow> error + 'b) \<Rightarrow> error + 'b" where
  "bind_err r f = (case r of Inl e \<Rightarrow> Inl e | Inr x \<Rightarrow> f x)"

text \<open>\<open>d.get(key)\<close> and \<open>d.get(key, default)\<close> on a \<open>dict\<close>.\<close>

definition dict_get :: "(string \<times> json) list \<Rightarrow> string \<Rightarrow> json" where
  "dict_get d key = (case map_of d key of Some v \<Rightarrow> v | None \<Rightarrow> JNull)"

definition dict_get_default :: "(string \<times> json) list \<Rightarrow> string \<Rightarrow> json \<Rightarrow> json" where
  "dict_get_default d key dflt = (case map_of d key of Some v \<Rightarrow> v | None \<Rightarrow> dflt)"

text \<open>
  \<open>d[key]\<close> with a string key on an arbitrary value: a \<open>dict\<close> answers or raises
  \<open>KeyError\<close>; a list or a string wants an integer index and everything else cannot be
  subscripted, which is a \<open>TypeError\<close> either way.
\<close>

fun subscript :: "json \<Rightarrow> string \<Rightarrow> error + json" where
  "subscript (JObj d) key = (case map_of d key of Some v \<Rightarrow> Inr v | None \<Rightarrow> Inl (KeyError key))"
| "subscript _ key = Inl TypeError"

text \<open>
  Iterating over a value (\<open>for d in iterable\<close>, \<open>tuple(x)\<close>): a list gives its elements,
  a \<open>dict\<close> its keys, a string its characters as one-character strings; \<open>None\<close>, a
  boolean and a number are not iterable.
\<close>

fun iterate :: "json \<Rightarrow> error + json list" where
  "iterate (JList xs) = Inr xs"
| "iterate (JObj d) = Inr (map (\<lambda>(k, v). JStr k) d)"
| "iterate (JStr s) = Inr (map (\<lambda>c. JStr [c]) s)"
| "iterate _ = Inl TypeError"

text \<open>\<open>tuple(x)\<close> as a \<open>Breadcrumb\<close>: every segment has to be a string.\<close>

fun segments :: "json list \<Rightarrow> error + Breadcrumb" where
  "segments [] = Inr []"
| "segments (JStr s # xs) = bind_err (segments xs) (\<lambda>rest. Inr (s # rest))"
| "segments (_ # xs) = Inl Untyped"

definition breadcrumb_tuple :: "json \<Rightarrow> error + Breadcrumb" where
  "breadcrumb_tuple x = bind_err (iterate x) segments"

section \<open>Serialization of metadata records\<close>

text \<open>\<open>name.replace("_", "-")\<close>.\<close>

definition replace_underscores :: "string \<Rightarrow> string" where
  "replace_underscores name = map (\<lambda>c. if c = CHR ''_'' then CHR ''-'' else c) name"

text \<open>\<open>fields(cls)\<close>: the field names of each dataclass, the inherited ones first.\<close>

definition Metadata_fields :: "string list" where
  "Metadata_fields = [''inclusion'', ''selected'', ''selected_by_default'']"

definition StreamMetadata_fields :: "string list" where
  "StreamMetadata_fields =
     Metadata_fields @
     [''table_key_properties'', ''forced_replication_method'',
      ''valid_replication_keys'', ''schema_name'']"

text \<open>
  Field values as they stand in a \<open>dict[str, Any]\<close>. \<open>InclusionType\<close> is a \<open>str\<close>
  enumeration: a member is its string value and compares equal to it.
\<close>

fun InclusionType_value :: "InclusionType \<Rightarrow> string" where
  "InclusionType_value AVAILABLE = ''available''"
| "InclusionType_value AUTOMATIC = ''automatic''"
| "InclusionType_value UNSUPPORTED = ''unsupported''"

definition json_of_inclusion :: "InclusionType option \<Rightarrow> json" where
  "json_of_inclusion x = (case x of None \<Rightarrow> JNull | Some i \<Rightarrow> JStr (InclusionType_value i))"

definition json_of_bool :: "bool option \<Rightarrow> json" where
  "json_of_bool x = (case x of None \<Rightarrow> JNull | Some b \<Rightarrow> JBool b)"

definition json_of_str :: "string option \<Rightarrow> json" where
  "json_of_str x = (case x of None \<Rightarrow> JNull | Some s \<Rightarrow> JStr s)"

definition json_of_strs :: "string list option \<Rightarrow> json" where
  "json_of_strs x = (case x of None \<Rightarrow> JNull | Some ss \<Rightarrow> JList (map JStr ss))"

fun inclusion_of_json :: "json \<Rightarrow> error + InclusionType option" where
  "inclusion_of_json JNull = Inr None"
| "inclusion_of_json (JStr s) =
     (if s = ''available'' then Inr (Some AVAILABLE)
      else if s = ''automatic'' then Inr (Some AUTOMATIC)
      else if s = ''unsupported'' then Inr (Some UNSUPPORTED)
      else Inl Untyped)"
| "inclusion_of_json _ = Inl Untyped"

fun bool_of_json :: "json \<Rightarrow> error + bool option" where
  "bool_of_json JNull = Inr None"
| "bool_of_json (JBool b) = Inr (Some b)"
| "bool_of_json _ = Inl Untyped"

fun str_of_json :: "json \<Rightarrow> error + string option" where
  "str_of_json JNull = Inr None"
| "str_of_json (JStr s) = Inr (Some s)"
| "str_of_json _ = Inl Untyped"

fun strs_of_json :: "json \<Rightarrow> error + string list option" where
  "strs_of_json JNull = Inr None"
| "strs_of_json (JList xs) = bind_err (segments xs) (\<lambda>ss. Inr (Some ss))"
| "strs_of_json _ = Inl Untyped"

text \<open>\<open>[(f.name, getattr(self, f.name)) for f in fields(self)]\<close> for each class.\<close>

definition Metadata_attrs :: "Metadata \<Rightarrow> (string \<times> json) list" where
  "Metadata_attrs m =
     [(''inclusion'', json_of_inclusion (inclusion m)),
      (''selected'', json_of_bool (selected m)),
      (''selected_by_default'', json_of_bool (selected_by_default m))]"

definition StreamMetadata_attrs :: "StreamMetadata \<Rightarrow> (string \<times> json) list" where
  "StreamMetadata_attrs s =
     [(''inclusion'', json_of_inclusion (inclusion s)),
      (''selected'', json_of_bool (selected s)),
      (''selected_by_default'', json_of_bool (selected_by_default s)),
      (''table_key_properties'', json_of_strs (table_key_properties s)),
      (''forced_replication_method'', json_of_str (forced_replication_method s)),
      (''valid_replication_keys'', json_of_strs (valid_replication_keys s)),
      (''schema_name'', json_of_str (schema_name s))]"

text \<open>
  \<open>to_dict\<close>: the loop over the fields stores every value that is not \<open>None\<close> under the
  field's name with hyphens for underscores.
\<close>

definition to_dict_loop :: "(string \<times> json) list \<Rightarrow> (string \<times> json) list" where
  "to_dict_loop attrs =
     foldl (\<lambda>result (name, value).
              if value \<noteq> JNull then dict_set result (replace_underscores name) value
              else result)
       [] attrs"

fun to_dict :: "AnyMetadata \<Rightarrow> (string \<times> json) list" where
  "to_dict (Plain m) = to_dict_loop (Metadata_attrs m)"
| "to_dict (Stream s) = to_dict_loop (StreamMetadata_attrs s)"

text \<open>
  \<open>from_dict\<close>: the keyword arguments are \<open>value.get\<close> of each field's hyphenated name;
  \<open>value\<close> has to be a \<open>dict\<close> for \<open>.get\<close> to exist. The generated \<open>__init__\<close> takes each
  field from the keyword of its name.
\<close>

definition from_dict_kwargs :: "string list \<Rightarrow> json \<Rightarrow> error + (string \<times> json) list" where
  "from_dict_kwargs field_names value =
     (case value of
        JObj d \<Rightarrow> Inr (map (\<lambda>name. (name, dict_get d (replace_underscores name))) field_names)
      | _ \<Rightarrow> Inl AttributeError)"

definition Metadata_new :: "(string \<times> json) list \<Rightarrow> error + Metadata" where
  "Metadata_new kwargs =
     bind_err (inclusion_of_json (dict_get kwargs ''inclusion'')) (\<lambda>i.
     bind_err (bool_of_json (dict_get kwargs ''selected'')) (\<lambda>s.
     bind_err (bool_of_json (dict_get kwargs ''selected_by_default'')) (\<lambda>sd.
       Inr \<lparr>inclusion = i, selected = s, selected_by_default = sd\<rparr>)))"

definition StreamMetadata_new :: "(string \<times> json) list \<Rightarrow> error + StreamMetadata" where
  "StreamMetadata_new kwargs =
     bind_err (inclusion_of_json (dict_get kwargs ''inclusion'')) (\<lambda>i.
     bind_err (bool_of_json (dict_get kwargs ''selected'')) (\<lambda>s.
     bind_err (bool_of_json (dict_get kwargs ''selected_by_default'')) (\<lambda>sd.
     bind_err (strs_of_json (dict_get kwargs ''table_key_properties'')) (\<lambda>tkp.
     bind_err (str_of_json (dict_get kwargs ''forced_replication_method'')) (\<lambda>frm.
     bind_err (strs_of_json (dict_get kwargs ''valid_replication_keys'')) (\<lambda>vrk.
     bind_err (str_of_json (dict_get kwargs ''schema_name'')) (\<lambda>sn.
       Inr \<lparr>inclusion = i, selected = s, selected_by_default = sd,
            table_key_properties = tkp, forced_replication_method = frm,
            valid_replication_keys = vrk, schema_name = sn\<rparr>)))))))"

definition Metadata_from_dict :: "json \<Rightarrow> error + Metadata" where
  "Metadata_from_dict value = bind_err (from_dict_kwargs Metadata_fields value) Metadata_new"

definition StreamMetadata_from_dict :: "json \<Rightarrow> error + StreamMetadata" where
  "StreamMetadata_from_dict value =
     bind_err (from_dict_kwargs StreamMetadata_fields value) StreamMetadata_new"

section \<open>Serialization of the metadata mapping\<close>

text \<open>
  \<open>from_iterable\<close>: each element gives a breadcrumb and a metadata dictionary; a non-empty
  breadcrumb is parsed as \<open>Metadata\<close>, the empty one as \<open>StreamMetadata\<close>, and the record is
  stored under the breadcrumb.
\<close>

fun from_iterable_loop :: "MetadataMapping \<Rightarrow> json list \<Rightarrow> error + MetadataMapping" where
  "from_iterable_loop mapping [] = Inr mapping"
| "from_iterable_loop mapping (d # ds) =
     bind_err (subscript d ''breadcrumb'') (\<lambda>b.
     bind_err (breadcrumb_tuple b) (\<lambda>breadcrumb.
     bind_err (subscript d ''metadata'') (\<lambda>metadata.
     bind_err (if breadcrumb \<noteq> []
               then bind_err (Metadata_from_dict metadata) (\<lambda>m. Inr (Plain m))
               else bind_err (StreamMetadata_from_dict metadata) (\<lambda>s. Inr (Stream s)))
       (\<lambda>entry. from_iterable_loop (dict_set mapping breadcrumb entry) ds))))"

definition from_iterable :: "json \<Rightarrow> error + MetadataMapping" where
  "from_iterable iterable = bind_err (iterate iterable) (from_iterable_loop [])"

definition to_list :: "MetadataMapping \<Rightarrow> json list" where
  "to_list self =
     map (\<lambda>(k, v). JObj [(''breadcrumb'', JList (map JStr k)), (''metadata'', JObj (to_dict v))])
       self"

section \<open>Auxiliary notions for the round trip\<close>

text \<open>
  The pairs the loop of \<open>to_dict\<close> is given, under the spelling it stores them with; and
  the record \<open>from_iterable\<close> builds from what \<open>to_dict\<close> wrote for an entry: the class is
  chosen by the breadcrumb, so a record of the other class is rebuilt in the chosen one
  from the fields both share.
\<close>

definition wire :: "(string \<times> json) list \<Rightarrow> (string \<times> json) list" where
  "wire attrs = map (\<lambda>a. (replace_underscores (fst a), snd a)) attrs"

fun reparsed :: "Breadcrumb \<Rightarrow> AnyMetadata \<Rightarrow> AnyMetadata" where
  "reparsed [] (Stream s) = Stream s"
| "reparsed [] (Plain m) =
     Stream \<lparr>inclusion = inclusion m, selected = selected m,
          selected_by_default = selected_by_default m,
          table_key_properties = None, forced_replication_method = None,
          valid_replication_keys = None, schema_name = None\<rparr>"
| "reparsed (x # xs) v =
     Plain \<lparr>inclusion = md_inclusion v, selected = md_selected v,
          selected_by_default = md_selected_by_default v\<rparr>"

section \<open>The seed mapping\<close>

text \<open>
  \<open>schema.get("properties", {}).keys()\<close>: the names of the top-level properties. A schema
  without the key has none; a value under the key that is no \<open>dict\<close> has no \<open>keys\<close>
  method, which is an \<open>AttributeError\<close>.
\<close>

definition schema_property_names :: "(string \<times> json) list \<Rightarrow> error + string list" where
  "schema_property_names schema =
     (case map_of schema ''properties'' of
        None \<Rightarrow> Inr []
      | Some (JObj properties) \<Rightarrow> Inr (map fst properties)
      | Some _ \<Rightarrow> Inl AttributeError)"

text \<open>
  \<open>get_standard_metadata\<close>. \<open>if schema:\<close> holds for a schema that is given and not empty,
  \<open>if schema_name:\<close> for a name that is given and not the empty string, and
  \<open>key_properties and field_name in key_properties\<close> for a name in a list that is given.
  The root record is stored last.
\<close>

definition get_standard_metadata ::
  "(string \<times> json) list option \<Rightarrow> string option \<Rightarrow> string list option \<Rightarrow>
   string list option \<Rightarrow> string option \<Rightarrow> error + MetadataMapping" where
  "get_standard_metadata schema schema_name' key_properties valid_replication_keys'
       replication_method =
     (let mapping = [];
          root = \<lparr>inclusion = None, selected = None, selected_by_default = None,
                  table_key_properties = key_properties,
                  forced_replication_method = replication_method,
                  valid_replication_keys = valid_replication_keys',
                  schema_name = None\<rparr>
      in case schema of
           None \<Rightarrow> Inr (dict_set mapping [] (Stream root))
         | Some sch \<Rightarrow>
             if sch = [] then Inr (dict_set mapping [] (Stream root))
             else
               let root1 = root\<lparr>inclusion := Some AVAILABLE\<rparr>;
                   root2 = (case schema_name' of
                              None \<Rightarrow> root1
                            | Some n \<Rightarrow> if n \<noteq> [] then root1\<lparr>schema_name := Some n\<rparr>
                                       else root1)
               in bind_err (schema_property_names sch) (\<lambda>field_names.
                    Inr (dict_set
                          (foldl (\<lambda>mapping field_name.
                                    dict_set mapping [''properties'', field_name]
                                      (Plain
                                        (if (case key_properties of
                                               None \<Rightarrow> False
                                             | Some ks \<Rightarrow> ks \<noteq> [] \<and> field_name \<in> set ks)
                                         then Metadata_init\<lparr>inclusion := Some AUTOMATIC\<rparr>
                                         else Metadata_init\<lparr>inclusion := Some AVAILABLE\<rparr>)))
                             mapping field_names)
                          [] (Stream root2))))"

section \<open>Catalog entries\<close>

text \<open>
  The dataclass \<open>CatalogEntry\<close>. \<open>from_dict\<close> checks none of the annotated types and no
  function here reads the fields, so each holds the value of the document as it is, \<open>None\<close>
  (\<open>JNull\<close>) when the document has none. The schema is whatever the schema parser returns.
\<close>

record 's CatalogEntry =
  tap_stream_id :: json
  metadata :: MetadataMapping
  schema :: 's
  stream :: json
  key_properties :: json
  replication_key :: json
  is_view :: json
  database :: json
  table :: json
  row_count :: json
  stream_alias :: json
  replication_method :: json

text \<open>
  \<open>CatalogEntry.from_dict\<close>. The keyword arguments are evaluated in the order they are
  written: the subscript \<open>stream["tap_stream_id"]\<close> first, then the schema, then the
  metadata; the \<open>.get\<close> calls cannot fail. \<open>SchemaPlus.from_dict\<close> lives in
  \<open>singer_sdk/helpers/_schema.py\<close> and is a parameter here.
\<close>

definition CatalogEntry_from_dict ::
  "(json \<Rightarrow> error + 's) \<Rightarrow> (string \<times> json) list \<Rightarrow> error + 's CatalogEntry" where
  "CatalogEntry_from_dict parse_schema stream' =
     bind_err (subscript (JObj stream') ''tap_stream_id'') (\<lambda>tid.
     bind_err (parse_schema (dict_get_default stream' ''schema'' (JObj []))) (\<lambda>sch.
     bind_err (from_iterable (dict_get_default stream' ''metadata'' (JList []))) (\<lambda>md.
       Inr \<lparr>tap_stream_id = tid,
            metadata = md,
            schema = sch,
            stream = dict_get stream' ''stream'',
            key_properties = dict_get stream' ''key_properties'',
            replication_key = dict_get stream' ''replication_key'',
            is_view = dict_get stream' ''is_view'',
            database = dict_get stream' ''database_name'',
            table = dict_get stream' ''table_name'',
            row_count = JNull,
            stream_alias = dict_get stream' ''stream_alias'',
            replication_method = dict_get stream' ''replication_method''\<rparr>)))"

text \<open>
  Modelled from the spec: \<open>SchemaPlus.from_dict\<close>, whose module is not among the sources.
  The spec says only that the schema sub-document is parsed into the tree type and gives
  it no failure; the tree is the document itself here. Only the closed instances below
  use it; the theorems hold for every schema parser.
\<close>

definition SchemaPlus_from_dict :: "json \<Rightarrow> error + json" where
  "SchemaPlus_from_dict data = Inr data"

section \<open>Properties of selection resolution\<close>

declare breadcrumb_is_selected.simps [simp del]
declare SelectionMask_getitem.simps [simp del]
declare MetadataMapping_getitem.simps [simp del]

subsection \<open>One step of the resolution\<close>

lemma resolved_empty: "resolved [] breadcrumb"
  by (subst breadcrumb_is_selected.simps) simp

lemma resolved_root:
  assumes "self \<noteq> []"
  shows "resolved self [] =
     (if md_inclusion (metadata_of self []) = Some UNSUPPORTED then False
      else if md_inclusion (metadata_of self []) = Some AUTOMATIC then True
      else (case md_selected (metadata_of self []) of
              Some s \<Rightarrow> s
            | None \<Rightarrow> (case md_selected_by_default (metadata_of self []) of
                         Some s \<Rightarrow> s | None \<Rightarrow> False)))"
  using assms
  by (subst breadcrumb_is_selected.simps)
     (simp add: MetadataMapping_get_def split: option.splits)

lemma resolved_child:
  assumes "self \<noteq> []" and "breadcrumb \<noteq> []"
  shows "resolved self breadcrumb =
     (if \<not> resolved self (parent_breadcrumb breadcrumb) then False
      else if md_inclusion (metadata_of self breadcrumb) = Some UNSUPPORTED then False
      else if md_inclusion (metadata_of self breadcrumb) = Some AUTOMATIC then True
      else (case md_selected (metadata_of self breadcrumb) of
              Some s \<Rightarrow> s
            | None \<Rightarrow> (case md_selected_by_default (metadata_of self breadcrumb) of
                         Some s \<Rightarrow> s | None \<Rightarrow> True)))"
proof -
  obtain v s where rec: "breadcrumb_is_selected self (parent_breadcrumb breadcrumb) = (v, s)"
    by (cases "breadcrumb_is_selected self (parent_breadcrumb breadcrumb)")
  show ?thesis
    using assms rec
    by (subst breadcrumb_is_selected.simps)
       (simp add: MetadataMapping_get_def split: option.splits)
qed

subsection \<open>Parents, inclusion categories and fallbacks\<close>

text \<open>
  C1. A breadcrumb that has a parent (any non-empty breadcrumb) resolves to not-selected
  whenever its parent \<open>breadcrumb[:-2]\<close> resolves to not-selected, whatever its own record
  says.
\<close>

theorem unselected_parent_unselects_child:
  assumes "breadcrumb \<noteq> []"
    and "\<not> resolved self (parent_breadcrumb breadcrumb)"
  shows "\<not> resolved self breadcrumb"
proof -
  from assms(2) have "self \<noteq> []"
    using resolved_empty by auto
  from resolved_child[OF this assms(1)] assms(2) show ?thesis
    by simp
qed

theorem unselected_parent_unselects_child_witness:
  "[''properties'', ''id''] \<noteq> ([] :: Breadcrumb)
   \<and> \<not> resolved [([], Stream (StreamMetadata_init\<lparr>selected := Some False\<rparr>)),
                   ([''properties'', ''id''], Plain (Metadata_init\<lparr>selected := Some True\<rparr>))]
         (parent_breadcrumb [''properties'', ''id''])
   \<and> \<not> resolved [([], Stream (StreamMetadata_init\<lparr>selected := Some False\<rparr>)),
                   ([''properties'', ''id''], Plain (Metadata_init\<lparr>selected := Some True\<rparr>))]
         [''properties'', ''id'']"
  using unselected_parent_unselects_child
          [of "[''properties'', ''id'']"
              "[([], Stream (StreamMetadata_init\<lparr>selected := Some False\<rparr>)),
                ([''properties'', ''id''], Plain (Metadata_init\<lparr>selected := Some True\<rparr>))]"]
  by (simp add: parent_breadcrumb_def resolved_root MetadataMapping_get_def
        StreamMetadata_init_def)

text \<open>
  C2. A breadcrumb whose record has inclusion \<open>unsupported\<close> resolves to not-selected,
  whatever the record's \<open>selected\<close> value is. (An empty mapping has no such record: the
  record read for an absent breadcrumb is \<open>Metadata()\<close>, whose inclusion is unset.)
\<close>

theorem unsupported_never_selected:
  assumes "md_inclusion (metadata_of self breadcrumb) = Some UNSUPPORTED"
  shows "\<not> resolved self breadcrumb"
proof (cases "self = []")
  case True
  with assms show ?thesis
    by (simp add: MetadataMapping_get_def Metadata_init_def)
next
  case False
  show ?thesis
  proof (cases "breadcrumb = []")
    case True
    with False assms show ?thesis by (simp add: resolved_root)
  next
    case ne: False
    with False assms show ?thesis by (simp add: resolved_child)
  qed
qed

theorem unsupported_never_selected_witness:
  "md_inclusion (metadata_of
      [([], Stream (StreamMetadata_init\<lparr>inclusion := Some UNSUPPORTED, selected := Some True\<rparr>))] [])
     = Some UNSUPPORTED
   \<and> \<not> resolved
      [([], Stream (StreamMetadata_init\<lparr>inclusion := Some UNSUPPORTED, selected := Some True\<rparr>))] []"
  using unsupported_never_selected
          [of "[([], Stream (StreamMetadata_init\<lparr>inclusion := Some UNSUPPORTED, selected := Some True\<rparr>))]"
              "[]"]
  by (simp add: MetadataMapping_get_def)

text \<open>
  C3, as stated, fails: a record with inclusion \<open>automatic\<close> under a stream that is
  deselected resolves to not-selected, because the parent is consulted before the
  inclusion category.
\<close>

theorem automatic_under_unselected_parent:
  "md_inclusion (metadata_of
      [([], Stream (StreamMetadata_init\<lparr>selected := Some False\<rparr>)),
       ([''properties'', ''id''], Plain (Metadata_init\<lparr>inclusion := Some AUTOMATIC\<rparr>))]
      [''properties'', ''id'']) = Some AUTOMATIC
   \<and> \<not> resolved
      [([], Stream (StreamMetadata_init\<lparr>selected := Some False\<rparr>)),
       ([''properties'', ''id''], Plain (Metadata_init\<lparr>inclusion := Some AUTOMATIC\<rparr>))]
      [''properties'', ''id'']"
  by (simp add: resolved_child resolved_root parent_breadcrumb_def MetadataMapping_get_def
        StreamMetadata_init_def Metadata_init_def)

text \<open>
  C3, amended. A breadcrumb whose record has inclusion \<open>automatic\<close> resolves to selected,
  whatever the record's \<open>selected\<close> value is, when it is the stream itself or its parent
  resolves to selected.
\<close>

theorem automatic_selected_under_selected_parent:
  assumes "md_inclusion (metadata_of self breadcrumb) = Some AUTOMATIC"
    and "breadcrumb = [] \<or> resolved self (parent_breadcrumb breadcrumb)"
  shows "resolved self breadcrumb"
proof (cases "self = []")
  case True
  then show ?thesis by (simp add: resolved_empty)
next
  case False
  show ?thesis
  proof (cases "breadcrumb = []")
    case True
    with False assms(1) show ?thesis by (simp add: resolved_root)
  next
    case ne: False
    with False assms show ?thesis by (simp add: resolved_child)
  qed
qed

theorem automatic_selected_under_selected_parent_witness:
  "md_inclusion (metadata_of
      [([], Stream (StreamMetadata_init\<lparr>selected := Some True\<rparr>)),
       ([''properties'', ''id''],
        Plain (Metadata_init\<lparr>inclusion := Some AUTOMATIC, selected := Some False\<rparr>))]
      [''properties'', ''id'']) = Some AUTOMATIC
   \<and> resolved
      [([], Stream (StreamMetadata_init\<lparr>selected := Some True\<rparr>)),
       ([''properties'', ''id''],
        Plain (Metadata_init\<lparr>inclusion := Some AUTOMATIC, selected := Some False\<rparr>))]
      (parent_breadcrumb [''properties'', ''id''])
   \<and> resolved
      [([], Stream (StreamMetadata_init\<lparr>selected := Some True\<rparr>)),
       ([''properties'', ''id''],
        Plain (Metadata_init\<lparr>inclusion := Some AUTOMATIC, selected := Some False\<rparr>))]
      [''properties'', ''id'']"
  using automatic_selected_under_selected_parent
          [of "[([], Stream (StreamMetadata_init\<lparr>selected := Some True\<rparr>)),
                ([''properties'', ''id''],
                 Plain (Metadata_init\<lparr>inclusion := Some AUTOMATIC, selected := Some False\<rparr>))]"
              "[''properties'', ''id'']"]
  by (simp add: parent_breadcrumb_def resolved_root MetadataMapping_get_def
        StreamMetadata_init_def Metadata_init_def)

text \<open>
  C4. In a non-empty mapping, for a breadcrumb whose record's inclusion is neither
  \<open>unsupported\<close> nor \<open>automatic\<close> and whose parent, when it has one, resolves to selected:
  the resolved flag is the record's \<open>selected\<close> value when that is set, otherwise its
  \<open>selected_by_default\<close> value when that is set, otherwise the parent's resolved flag; the
  stream itself, which has no parent, then resolves to not-selected.
\<close>

theorem fallback_precedence:
  assumes "self \<noteq> []"
    and "md_inclusion (metadata_of self breadcrumb) \<noteq> Some UNSUPPORTED"
    and "md_inclusion (metadata_of self breadcrumb) \<noteq> Some AUTOMATIC"
    and "breadcrumb \<noteq> [] \<longrightarrow> resolved self (parent_breadcrumb breadcrumb)"
  shows "resolved self breadcrumb =
     (case md_selected (metadata_of self breadcrumb) of
        Some s \<Rightarrow> s
      | None \<Rightarrow>
          (case md_selected_by_default (metadata_of self breadcrumb) of
             Some s \<Rightarrow> s
           | None \<Rightarrow>
               (if breadcrumb = [] then False
                else resolved self (parent_breadcrumb breadcrumb))))"
proof (cases "breadcrumb = []")
  case True
  with assms show ?thesis
    by (simp add: resolved_root split: option.splits)
next
  case False
  with assms show ?thesis
    by (simp add: resolved_child split: option.splits)
qed

theorem fallback_precedence_witness:
  "[([], Stream (StreamMetadata_init\<lparr>selected_by_default := Some True\<rparr>)),
    ([''properties'', ''name''], Plain (Metadata_init\<lparr>inclusion := Some AVAILABLE\<rparr>))]
     \<noteq> ([] :: MetadataMapping)
   \<and> md_inclusion (metadata_of
        [([], Stream (StreamMetadata_init\<lparr>selected_by_default := Some True\<rparr>)),
         ([''properties'', ''name''], Plain (Metadata_init\<lparr>inclusion := Some AVAILABLE\<rparr>))]
        [''properties'', ''name'']) = Some AVAILABLE
   \<and> resolved
        [([], Stream (StreamMetadata_init\<lparr>selected_by_default := Some True\<rparr>)),
         ([''properties'', ''name''], Plain (Metadata_init\<lparr>inclusion := Some AVAILABLE\<rparr>))]
        (parent_breadcrumb [''properties'', ''name''])
   \<and> resolved
        [([], Stream (StreamMetadata_init\<lparr>selected_by_default := Some True\<rparr>)),
         ([''properties'', ''name''], Plain (Metadata_init\<lparr>inclusion := Some AVAILABLE\<rparr>))]
        [''properties'', ''name'']"
  using fallback_precedence
          [of "[([], Stream (StreamMetadata_init\<lparr>selected_by_default := Some True\<rparr>)),
                ([''properties'', ''name''], Plain (Metadata_init\<lparr>inclusion := Some AVAILABLE\<rparr>))]"
              "[''properties'', ''name'']"]
  by (simp add: parent_breadcrumb_def resolved_root MetadataMapping_get_def
        StreamMetadata_init_def Metadata_init_def)

subsection \<open>The empty mapping\<close>

lemma SelectionMask_getitem_empty: "SelectionMask_getitem [] breadcrumb"
proof (induction "[] :: SelectionMask" breadcrumb rule: SelectionMask_getitem.induct)
  case (1 breadcrumb)
  then show ?case
    by (subst SelectionMask_getitem.simps) simp
qed

text \<open>
  C5. The mask resolved from the empty mapping answers \<open>True\<close> for every breadcrumb: the
  mask has no key, and the lookup of an absent breadcrumb climbs to a breadcrumb of fewer
  than two segments, where it answers \<open>True\<close>.
\<close>

theorem empty_mapping_selects_everything:
  "SelectionMask_getitem (fst (resolve_selection [])) breadcrumb = True"
  by (simp add: resolve_selection_def dict_of_pairs_def SelectionMask_getitem_empty)

subsection \<open>Lookup of an absent breadcrumb\<close>

lemma dict_set_absent: "map_of d k = None \<Longrightarrow> dict_set d k v = d @ [(k, v)]"
  by (induction d) (auto split: if_splits)

lemma map_of_dict_set: "map_of (dict_set d k v) = (map_of d)(k \<mapsto> v)"
  by (induction d) auto

lemma MetadataMapping_getitem_absent:
  assumes "map_of self breadcrumb = None"
  shows "MetadataMapping_getitem self breadcrumb =
     (missing_default breadcrumb, self @ [(breadcrumb, missing_default breadcrumb)])"
proof -
  let ?self' = "dict_set self breadcrumb (missing_default breadcrumb)"
  have "MetadataMapping_getitem self breadcrumb = MetadataMapping_getitem ?self' breadcrumb"
    using assms by (subst MetadataMapping_getitem.simps) simp
  also have "\<dots> = (missing_default breadcrumb, ?self')"
    by (subst MetadataMapping_getitem.simps) (simp add: map_of_dict_set)
  also have "?self' = self @ [(breadcrumb, missing_default breadcrumb)]"
    using assms by (rule dict_set_absent)
  finally show ?thesis .
qed

text \<open>
  C7. Subscripting the mapping with a breadcrumb that is no key returns a value (the
  subscript is a total function): the stream-level default record for the empty
  breadcrumb and the plain default record otherwise, every field unset. The record is
  stored under the breadcrumb as the last entry.
\<close>

theorem missing_key_default:
  assumes "map_of self breadcrumb = None"
  shows "MetadataMapping_getitem self breadcrumb =
     (if breadcrumb = []
      then (Stream \<lparr>inclusion = None, selected = None, selected_by_default = None,
              table_key_properties = None, forced_replication_method = None,
              valid_replication_keys = None, schema_name = None\<rparr>,
            self @ [([], Stream \<lparr>inclusion = None, selected = None,
              selected_by_default = None, table_key_properties = None,
              forced_replication_method = None, valid_replication_keys = None,
              schema_name = None\<rparr>)])
      else (Plain \<lparr>inclusion = None, selected = None, selected_by_default = None\<rparr>,
            self @ [(breadcrumb,
              Plain \<lparr>inclusion = None, selected = None, selected_by_default = None\<rparr>)]))"
  using MetadataMapping_getitem_absent[OF assms]
  by (simp add: missing_default_def Metadata_init_def StreamMetadata_init_def)

theorem missing_key_default_witness:
  "map_of [([], Stream StreamMetadata_init)] [''properties'', ''id''] = None \<and>
   MetadataMapping_getitem [([], Stream StreamMetadata_init)] [''properties'', ''id''] =
     (Plain \<lparr>inclusion = None, selected = None, selected_by_default = None\<rparr>,
      [([], Stream StreamMetadata_init),
       ([''properties'', ''id''],
        Plain \<lparr>inclusion = None, selected = None, selected_by_default = None\<rparr>)])"
  using missing_key_default [of "[([], Stream StreamMetadata_init)]" "[''properties'', ''id'']"]
  by simp

subsection \<open>The frame of \<open>resolve_selection\<close>\<close>

lemma breadcrumb_is_selected_frame: "snd (breadcrumb_is_selected self breadcrumb) = self"
proof (cases "self = []")
  case True
  then show ?thesis
    by (subst breadcrumb_is_selected.simps) simp
next
  case False
  show ?thesis
    using False
  proof (induction breadcrumb rule: length_induct)
    case (1 breadcrumb)
    show ?case
    proof (cases "breadcrumb = []")
      case True
      with 1(2) show ?thesis
        by (subst breadcrumb_is_selected.simps)
           (simp add: MetadataMapping_get_def split: option.splits)
    next
      case ne: False
      then have "length (parent_breadcrumb breadcrumb) < length breadcrumb"
        by (simp add: parent_breadcrumb_def)
      with 1 have "snd (breadcrumb_is_selected self (parent_breadcrumb breadcrumb)) = self"
        by blast
      then obtain v where
        rec: "breadcrumb_is_selected self (parent_breadcrumb breadcrumb) = (v, self)"
        by (metis prod.collapse)
      from ne 1(2) rec show ?thesis
        by (subst breadcrumb_is_selected.simps)
           (simp add: MetadataMapping_get_def split: option.splits)
    qed
  qed
qed

lemma resolve_items_frame: "snd (resolve_items bs self) = self"
proof (induction bs)
  case Nil
  show ?case by simp
next
  case (Cons b bs)
  obtain v where step: "breadcrumb_is_selected self b = (v, self)"
    using breadcrumb_is_selected_frame[of self b] by (metis prod.collapse)
  with Cons show ?case
    by (auto split: prod.splits)
qed

lemma resolve_items_keys: "map fst (fst (resolve_items bs self)) = bs"
proof (induction bs)
  case Nil
  show ?case by simp
next
  case (Cons b bs)
  obtain v where step: "breadcrumb_is_selected self b = (v, self)"
    using breadcrumb_is_selected_frame[of self b] by (metis prod.collapse)
  with Cons show ?case
    by (auto split: prod.splits)
qed

lemma dict_set_keys: "fst ` set (dict_set d k v) = insert k (fst ` set d)"
proof (induction d)
  case Nil
  show ?case by simp
next
  case (Cons p d)
  obtain k' v' where p: "p = (k', v')" by (cases p)
  show ?case
  proof (cases "k' = k")
    case True
    with p show ?thesis by simp
  next
    case False
    with p Cons.IH show ?thesis by (simp add: insert_commute)
  qed
qed

lemma foldl_dict_set_keys:
  "fst ` set (foldl (\<lambda>d (k, v). dict_set d k v) d ps) = fst ` set d \<union> fst ` set ps"
proof (induction ps arbitrary: d)
  case Nil
  show ?case by simp
next
  case (Cons p ps)
  obtain k v where p: "p = (k, v)" by (cases p)
  from Cons.IH[of "dict_set d k v"] p show ?case
    by (simp add: dict_set_keys)
qed

text \<open>
  C8. The keys of the mask \<open>resolve_selection\<close> returns are exactly the keys of the
  mapping, and the mapping the call leaves behind is the mapping it was given: resolving a
  breadcrumb reads its ancestors with \<open>dict.get\<close> and stores none of them.
\<close>

theorem resolve_selection_frame:
  "set (map fst (fst (resolve_selection self))) = set (map fst self)
   \<and> snd (resolve_selection self) = self"
proof -
  obtain items s where r: "resolve_items (map fst self) self = (items, s)"
    by (cases "resolve_items (map fst self) self")
  from resolve_items_frame[of "map fst self" self] r have s: "s = self"
    by simp
  from resolve_items_keys[of "map fst self" self] r have k: "map fst items = map fst self"
    by simp
  have "fst ` set (dict_of_pairs items) = fst ` set items"
    by (simp add: dict_of_pairs_def foldl_dict_set_keys)
  also have "\<dots> = set (map fst items)"
    by simp
  also have "\<dots> = fst ` set self"
    by (simp add: k)
  finally show ?thesis
    using r s by (simp add: resolve_selection_def)
qed

section \<open>Serialization round trip\<close>

subsection \<open>Field values and breadcrumbs\<close>

text \<open>What \<open>to_dict\<close> and \<open>to_list\<close> write for a typed value is read back as that value.\<close>

lemma segments_strs: "segments (map JStr ss) = Inr ss"
  by (induction ss) (simp_all add: bind_err_def)

lemma breadcrumb_tuple_list: "breadcrumb_tuple (JList (map JStr k)) = Inr k"
  by (simp add: breadcrumb_tuple_def bind_err_def segments_strs)

lemma inclusion_roundtrip: "inclusion_of_json (json_of_inclusion x) = Inr x"
proof (cases x)
  case None
  then show ?thesis by (simp add: json_of_inclusion_def)
next
  case (Some i)
  then show ?thesis by (cases i) (simp_all add: json_of_inclusion_def)
qed

lemma bool_roundtrip: "bool_of_json (json_of_bool x) = Inr x"
  by (cases x) (simp_all add: json_of_bool_def)

lemma str_roundtrip: "str_of_json (json_of_str x) = Inr x"
  by (cases x) (simp_all add: json_of_str_def)

lemma strs_roundtrip: "strs_of_json (json_of_strs x) = Inr x"
  by (cases x) (simp_all add: json_of_strs_def segments_strs bind_err_def)

subsection \<open>What \<open>to_dict\<close> stores under a key\<close>

text \<open>
  The hyphenated names of the fields of one class are distinct, so the loop stores each
  value that is not \<open>None\<close> under its own key, and \<open>.get\<close> of a hyphenated name finds the
  value of that field, or \<open>None\<close>.
\<close>

lemma wire_simps:
  "wire [] = []"
  "wire ((name, v) # attrs) = (replace_underscores name, v) # wire attrs"
  by (simp_all add: wire_def)

lemma dict_get_dict_set:
  "dict_get (dict_set d k v) key = (if key = k then v else dict_get d key)"
  by (simp add: dict_get_def map_of_dict_set)

lemma to_dict_loop_lookup_gen:
  assumes "distinct (map fst (wire attrs))"
  shows "dict_get (foldl (\<lambda>result (name, value).
              if value \<noteq> JNull then dict_set result (replace_underscores name) value
              else result) d attrs) key
         = (case map_of (wire attrs) key of
              Some v \<Rightarrow> (if v = JNull then dict_get d key else v)
            | None \<Rightarrow> dict_get d key)"
  using assms
proof (induction attrs arbitrary: d)
  case Nil
  show ?case by (simp add: wire_simps)
next
  case (Cons a attrs)
  obtain name val where a: "a = (name, val)" by (cases a)
  from Cons.prems a have dist: "distinct (map fst (wire attrs))"
    and fresh: "replace_underscores name \<notin> fst ` set (wire attrs)"
    by (simp_all add: wire_simps)
  from fresh have absent: "map_of (wire attrs) (replace_underscores name) = None"
    by (simp add: map_of_eq_None_iff)
  show ?case
  proof (cases "key = replace_underscores name")
    case True
    with a absent Cons.IH[OF dist] show ?thesis
      by (simp add: wire_simps dict_get_dict_set split: option.splits)
  next
    case False
    with a Cons.IH[OF dist] show ?thesis
      by (simp add: wire_simps dict_get_dict_set split: option.splits)
  qed
qed

lemma to_dict_loop_lookup:
  assumes "distinct (map fst (wire attrs))"
  shows "dict_get (to_dict_loop attrs) key
         = (case map_of (wire attrs) key of Some v \<Rightarrow> v | None \<Rightarrow> JNull)"
  using to_dict_loop_lookup_gen[OF assms, of "[]" key]
  by (auto simp: to_dict_loop_def dict_get_def split: option.splits)

lemma Metadata_wire:
  "wire (Metadata_attrs m) =
     [(''inclusion'', json_of_inclusion (inclusion m)),
      (''selected'', json_of_bool (selected m)),
      (''selected-by-default'', json_of_bool (selected_by_default m))]"
  by (simp add: wire_simps Metadata_attrs_def replace_underscores_def)

lemma StreamMetadata_wire:
  "wire (StreamMetadata_attrs s) =
     [(''inclusion'', json_of_inclusion (inclusion s)),
      (''selected'', json_of_bool (selected s)),
      (''selected-by-default'', json_of_bool (selected_by_default s)),
      (''table-key-properties'', json_of_strs (table_key_properties s)),
      (''forced-replication-method'', json_of_str (forced_replication_method s)),
      (''valid-replication-keys'', json_of_strs (valid_replication_keys s)),
      (''schema-name'', json_of_str (schema_name s))]"
  by (simp add: wire_simps StreamMetadata_attrs_def replace_underscores_def)

lemma Metadata_lookup:
  "dict_get (to_dict_loop (Metadata_attrs m)) key
     = (case map_of (wire (Metadata_attrs m)) key of Some v \<Rightarrow> v | None \<Rightarrow> JNull)"
  by (rule to_dict_loop_lookup) (simp add: Metadata_wire)

lemma StreamMetadata_lookup:
  "dict_get (to_dict_loop (StreamMetadata_attrs s)) key
     = (case map_of (wire (StreamMetadata_attrs s)) key of Some v \<Rightarrow> v | None \<Rightarrow> JNull)"
  by (rule to_dict_loop_lookup) (simp add: StreamMetadata_wire)

text \<open>The dictionary the loop builds: the set fields in field order, each under its
  hyphenated name.\<close>

lemma to_dict_loop_stored_gen:
  assumes "distinct (map fst d @ map fst (wire attrs))"
  shows "foldl (\<lambda>result (name, value).
              if value \<noteq> JNull then dict_set result (replace_underscores name) value
              else result) d attrs
         = d @ filter (\<lambda>kv. snd kv \<noteq> JNull) (wire attrs)"
  using assms
proof (induction attrs arbitrary: d)
  case Nil
  show ?case by (simp add: wire_simps)
next
  case (Cons a attrs)
  obtain name val where a: "a = (name, val)" by (cases a)
  show ?case
  proof (cases "val = JNull")
    case True
    from Cons.prems a have "distinct (map fst d @ map fst (wire attrs))"
      by (simp add: wire_simps)
    from Cons.IH[OF this] a True show ?thesis
      by (simp add: wire_simps)
  next
    case False
    from Cons.prems a have "replace_underscores name \<notin> fst ` set d"
      by (auto simp: wire_simps)
    then have "map_of d (replace_underscores name) = None"
      by (simp add: map_of_eq_None_iff)
    then have step: "dict_set d (replace_underscores name) val = d @ [(replace_underscores name, val)]"
      by (rule dict_set_absent)
    from Cons.prems a
    have "distinct (map fst (d @ [(replace_underscores name, val)]) @ map fst (wire attrs))"
      by (auto simp: wire_simps)
    from Cons.IH[OF this] a False step show ?thesis
      by (simp add: wire_simps)
  qed
qed

lemma to_dict_loop_stored:
  assumes "distinct (map fst (wire attrs))"
  shows "to_dict_loop attrs = filter (\<lambda>kv. snd kv \<noteq> JNull) (wire attrs)"
  using to_dict_loop_stored_gen[of "[]" attrs] assms
  by (simp add: to_dict_loop_def)

subsection \<open>The wire names of the fields\<close>

text \<open>
  \<open>to_dict\<close> writes each field that is set under its name with hyphens, and \<open>from_dict\<close>
  reads each field of the record from the key of that same hyphenated name.
\<close>

lemma to_dict_Plain_keys:
  "to_dict (Plain p) =
     filter (\<lambda>kv. snd kv \<noteq> JNull)
       [(''inclusion'', json_of_inclusion (inclusion p)),
        (''selected'', json_of_bool (selected p)),
        (''selected-by-default'', json_of_bool (selected_by_default p))]"
proof -
  have "distinct (map fst (wire (Metadata_attrs p)))"
    by (simp add: Metadata_wire)
  from to_dict_loop_stored[OF this] show ?thesis
    by (simp only: to_dict.simps Metadata_wire)
qed

lemma to_dict_Stream_keys:
  "to_dict (Stream q) =
     filter (\<lambda>kv. snd kv \<noteq> JNull)
       [(''inclusion'', json_of_inclusion (inclusion q)),
        (''selected'', json_of_bool (selected q)),
        (''selected-by-default'', json_of_bool (selected_by_default q)),
        (''table-key-properties'', json_of_strs (table_key_properties q)),
        (''forced-replication-method'', json_of_str (forced_replication_method q)),
        (''valid-replication-keys'', json_of_strs (valid_replication_keys q)),
        (''schema-name'', json_of_str (schema_name q))]"
proof -
  have "distinct (map fst (wire (StreamMetadata_attrs q)))"
    by (simp add: StreamMetadata_wire)
  from to_dict_loop_stored[OF this] show ?thesis
    by (simp only: to_dict.simps StreamMetadata_wire)
qed

lemma Metadata_from_dict_keys:
  "Metadata_from_dict (JObj doc) =
     bind_err (inclusion_of_json (dict_get doc ''inclusion'')) (\<lambda>i.
     bind_err (bool_of_json (dict_get doc ''selected'')) (\<lambda>s.
     bind_err (bool_of_json (dict_get doc ''selected-by-default'')) (\<lambda>sd.
       Inr \<lparr>inclusion = i, selected = s, selected_by_default = sd\<rparr>)))"
  by (simp add: Metadata_from_dict_def from_dict_kwargs_def Metadata_fields_def
        Metadata_new_def replace_underscores_def dict_get_def[of "(_, _) # _"]
        bind_err_def[of "Inr _"])

lemma StreamMetadata_from_dict_keys:
  "StreamMetadata_from_dict (JObj doc) =
     bind_err (inclusion_of_json (dict_get doc ''inclusion'')) (\<lambda>i.
     bind_err (bool_of_json (dict_get doc ''selected'')) (\<lambda>s.
     bind_err (bool_of_json (dict_get doc ''selected-by-default'')) (\<lambda>sd.
     bind_err (strs_of_json (dict_get doc ''table-key-properties'')) (\<lambda>tkp.
     bind_err (str_of_json (dict_get doc ''forced-replication-method'')) (\<lambda>frm.
     bind_err (strs_of_json (dict_get doc ''valid-replication-keys'')) (\<lambda>vrk.
     bind_err (str_of_json (dict_get doc ''schema-name'')) (\<lambda>sn.
       Inr \<lparr>inclusion = i, selected = s, selected_by_default = sd,
            table_key_properties = tkp, forced_replication_method = frm,
            valid_replication_keys = vrk, schema_name = sn\<rparr>)))))))"
  by (simp add: StreamMetadata_from_dict_def from_dict_kwargs_def StreamMetadata_fields_def
        Metadata_fields_def StreamMetadata_new_def replace_underscores_def
        dict_get_def[of "(_, _) # _"] bind_err_def[of "Inr _"])

subsection \<open>Records\<close>

declare to_dict.simps [simp del]

lemmas from_dict_unfold = to_dict.simps
  Metadata_from_dict_def StreamMetadata_from_dict_def from_dict_kwargs_def
  Metadata_fields_def StreamMetadata_fields_def Metadata_new_def StreamMetadata_new_def
  bind_err_def replace_underscores_def dict_get_def[of "(_, _) # _"]
  inclusion_roundtrip bool_roundtrip str_roundtrip strs_roundtrip

lemma Metadata_from_to_dict:
  "Metadata_from_dict (JObj (to_dict v)) =
     Inr \<lparr>inclusion = md_inclusion v, selected = md_selected v,
          selected_by_default = md_selected_by_default v\<rparr>"
proof (cases v)
  case (Plain m)
  then show ?thesis
    by (simp add: from_dict_unfold Metadata_lookup Metadata_wire)
next
  case (Stream s)
  then show ?thesis
    by (simp add: from_dict_unfold StreamMetadata_lookup StreamMetadata_wire)
qed

lemma StreamMetadata_from_to_dict_Stream:
  "StreamMetadata_from_dict (JObj (to_dict (Stream s))) = Inr s"
  by (simp add: from_dict_unfold StreamMetadata_lookup StreamMetadata_wire)

lemma StreamMetadata_from_to_dict_Plain:
  "StreamMetadata_from_dict (JObj (to_dict (Plain m))) =
     Inr \<lparr>inclusion = inclusion m, selected = selected m,
          selected_by_default = selected_by_default m,
          table_key_properties = None, forced_replication_method = None,
          valid_replication_keys = None, schema_name = None\<rparr>"
  by (simp add: from_dict_unfold Metadata_lookup Metadata_wire)

subsection \<open>Mappings\<close>

lemma reparsed_fields:
  "md_inclusion (reparsed b v) = md_inclusion v"
  "md_selected (reparsed b v) = md_selected v"
  "md_selected_by_default (reparsed b v) = md_selected_by_default v"
  by (cases b; cases v; simp)+

lemma reparsed_Plain: "b \<noteq> [] \<Longrightarrow> reparsed b (Plain m) = Plain m"
  by (cases b) simp_all

lemma from_iterable_loop_to_list:
  "from_iterable_loop mapping (to_list self) =
     Inr (foldl (\<lambda>d (k, v). dict_set d k (reparsed k v)) mapping self)"
proof (induction self arbitrary: mapping)
  case Nil
  show ?case by (simp add: to_list_def)
next
  case (Cons e self)
  obtain k v where e: "e = (k, v)" by (cases e)
  have entry: "(if k \<noteq> []
               then bind_err (Metadata_from_dict (JObj (to_dict v))) (\<lambda>m. Inr (Plain m))
               else bind_err (StreamMetadata_from_dict (JObj (to_dict v))) (\<lambda>s. Inr (Stream s)))
             = Inr (reparsed k v)"
  proof (cases k)
    case Nil
    then show ?thesis
      by (cases v)
         (simp_all add: bind_err_def StreamMetadata_from_to_dict_Stream
            StreamMetadata_from_to_dict_Plain)
  next
    case (Cons x xs)
    then show ?thesis
      by (simp add: bind_err_def Metadata_from_to_dict)
  qed
  have "from_iterable_loop mapping (to_list (e # self)) =
          from_iterable_loop (dict_set mapping k (reparsed k v)) (to_list self)"
    unfolding e to_list_def
    by (simp add: breadcrumb_tuple_list entry bind_err_def del: reparsed.simps)
  with Cons.IH[of "dict_set mapping k (reparsed k v)"] e show ?case
    by simp
qed

lemma foldl_dict_set_fresh:
  assumes "distinct (map fst d @ map fst ps)"
  shows "foldl (\<lambda>d (k, v). dict_set d k (f k v)) d ps = d @ map (\<lambda>(k, v). (k, f k v)) ps"
  using assms
proof (induction ps arbitrary: d)
  case Nil
  show ?case by simp
next
  case (Cons p ps)
  obtain k v where p: "p = (k, v)" by (cases p)
  from Cons.prems p have "k \<notin> fst ` set d" by auto
  then have "map_of d k = None" by (simp add: map_of_eq_None_iff)
  then have step: "dict_set d k (f k v) = d @ [(k, f k v)]" by (rule dict_set_absent)
  from Cons.prems p have "distinct (map fst (d @ [(k, f k v)]) @ map fst ps)" by auto
  from Cons.IH[OF this] p step show ?case by simp
qed

lemma from_iterable_to_list:
  assumes "distinct (map fst self)"
  shows "from_iterable (JList (to_list self)) = Inr (map (\<lambda>(k, v). (k, reparsed k v)) self)"
  using foldl_dict_set_fresh[of "[]" self reparsed] assms
  by (simp add: from_iterable_def bind_err_def from_iterable_loop_to_list)

lemma map_of_reparsed:
  "map_of (map (\<lambda>(k, v). (k, reparsed k v)) self) b = map_option (reparsed b) (map_of self b)"
  by (induction self) auto

text \<open>
  C6. For a mapping (its keys distinct, as the keys of a \<open>dict\<close> are), parsing the list
  \<open>to_list\<close> writes succeeds and gives a mapping with the same keys in the same order;
  under every breadcrumb the record has the same inclusion, \<open>selected\<close> and
  \<open>selected_by_default\<close> values; a stream-level record at the root comes back with all
  its fields, and a plain record under a non-empty breadcrumb comes back as it was. On
  the write path \<open>to_dict\<close> stores the fields that are set under the hyphenated names
  \<open>inclusion\<close>, \<open>selected\<close>, \<open>selected-by-default\<close>, \<open>table-key-properties\<close>,
  \<open>forced-replication-method\<close>, \<open>valid-replication-keys\<close> and \<open>schema-name\<close>; on the
  read path \<open>from_dict\<close> takes the underscored field of each name from the key of the
  same hyphenated name.
\<close>

theorem metadata_mapping_roundtrip:
  assumes "distinct (map fst self)"
  shows "(\<exists>mapping. from_iterable (JList (to_list self)) = Inr mapping
     \<and> map fst mapping = map fst self
     \<and> (\<forall>b v. map_of self b = Some v \<longrightarrow>
           (\<exists>v'. map_of mapping b = Some v'
              \<and> md_inclusion v' = md_inclusion v
              \<and> md_selected v' = md_selected v
              \<and> md_selected_by_default v' = md_selected_by_default v))
     \<and> (\<forall>s. map_of self [] = Some (Stream s) \<longrightarrow> map_of mapping [] = Some (Stream s))
     \<and> (\<forall>b m. b \<noteq> [] \<and> map_of self b = Some (Plain m) \<longrightarrow>
           map_of mapping b = Some (Plain m)))
   \<and> to_dict (Plain p) =
       filter (\<lambda>kv. snd kv \<noteq> JNull)
         [(''inclusion'', json_of_inclusion (inclusion p)),
          (''selected'', json_of_bool (selected p)),
          (''selected-by-default'', json_of_bool (selected_by_default p))]
   \<and> to_dict (Stream q) =
       filter (\<lambda>kv. snd kv \<noteq> JNull)
         [(''inclusion'', json_of_inclusion (inclusion q)),
          (''selected'', json_of_bool (selected q)),
          (''selected-by-default'', json_of_bool (selected_by_default q)),
          (''table-key-properties'', json_of_strs (table_key_properties q)),
          (''forced-replication-method'', json_of_str (forced_replication_method q)),
          (''valid-replication-keys'', json_of_strs (valid_replication_keys q)),
          (''schema-name'', json_of_str (schema_name q))]
   \<and> Metadata_from_dict (JObj doc) =
       bind_err (inclusion_of_json (dict_get doc ''inclusion'')) (\<lambda>i.
       bind_err (bool_of_json (dict_get doc ''selected'')) (\<lambda>s.
       bind_err (bool_of_json (dict_get doc ''selected-by-default'')) (\<lambda>sd.
         Inr \<lparr>inclusion = i, selected = s, selected_by_default = sd\<rparr>)))
   \<and> StreamMetadata_from_dict (JObj doc) =
       bind_err (inclusion_of_json (dict_get doc ''inclusion'')) (\<lambda>i.
       bind_err (bool_of_json (dict_get doc ''selected'')) (\<lambda>s.
       bind_err (bool_of_json (dict_get doc ''selected-by-default'')) (\<lambda>sd.
       bind_err (strs_of_json (dict_get doc ''table-key-properties'')) (\<lambda>tkp.
       bind_err (str_of_json (dict_get doc ''forced-replication-method'')) (\<lambda>frm.
       bind_err (strs_of_json (dict_get doc ''valid-replication-keys'')) (\<lambda>vrk.
       bind_err (str_of_json (dict_get doc ''schema-name'')) (\<lambda>sn.
         Inr \<lparr>inclusion = i, selected = s, selected_by_default = sd,
              table_key_properties = tkp, forced_replication_method = frm,
              valid_replication_keys = vrk, schema_name = sn\<rparr>)))))))"
proof (intro conjI)
  let ?mapping = "map (\<lambda>(k, v). (k, reparsed k v)) self"
  show "\<exists>mapping. from_iterable (JList (to_list self)) = Inr mapping
     \<and> map fst mapping = map fst self
     \<and> (\<forall>b v. map_of self b = Some v \<longrightarrow>
           (\<exists>v'. map_of mapping b = Some v'
              \<and> md_inclusion v' = md_inclusion v
              \<and> md_selected v' = md_selected v
              \<and> md_selected_by_default v' = md_selected_by_default v))
     \<and> (\<forall>s. map_of self [] = Some (Stream s) \<longrightarrow> map_of mapping [] = Some (Stream s))
     \<and> (\<forall>b m. b \<noteq> [] \<and> map_of self b = Some (Plain m) \<longrightarrow>
           map_of mapping b = Some (Plain m))"
  proof (intro exI conjI)
    show "from_iterable (JList (to_list self)) = Inr ?mapping"
      using assms by (rule from_iterable_to_list)
    show "map fst ?mapping = map fst self"
      by (induction self) auto
    show "\<forall>b v. map_of self b = Some v \<longrightarrow>
             (\<exists>v'. map_of ?mapping b = Some v'
                \<and> md_inclusion v' = md_inclusion v
                \<and> md_selected v' = md_selected v
                \<and> md_selected_by_default v' = md_selected_by_default v)"
      by (simp add: map_of_reparsed reparsed_fields)
    show "\<forall>s. map_of self [] = Some (Stream s) \<longrightarrow> map_of ?mapping [] = Some (Stream s)"
      by (simp add: map_of_reparsed)
    show "\<forall>b m. b \<noteq> [] \<and> map_of self b = Some (Plain m) \<longrightarrow>
             map_of ?mapping b = Some (Plain m)"
      by (simp add: map_of_reparsed reparsed_Plain)
  qed
  show "to_dict (Plain p) =
       filter (\<lambda>kv. snd kv \<noteq> JNull)
         [(''inclusion'', json_of_inclusion (inclusion p)),
          (''selected'', json_of_bool (selected p)),
          (''selected-by-default'', json_of_bool (selected_by_default p))]"
    by (rule to_dict_Plain_keys)
  show "to_dict (Stream q) =
       filter (\<lambda>kv. snd kv \<noteq> JNull)
         [(''inclusion'', json_of_inclusion (inclusion q)),
          (''selected'', json_of_bool (selected q)),
          (''selected-by-default'', json_of_bool (selected_by_default q)),
          (''table-key-properties'', json_of_strs (table_key_properties q)),
          (''forced-replication-method'', json_of_str (forced_replication_method q)),
          (''valid-replication-keys'', json_of_strs (valid_replication_keys q)),
          (''schema-name'', json_of_str (schema_name q))]"
    by (rule to_dict_Stream_keys)
  show "Metadata_from_dict (JObj doc) =
       bind_err (inclusion_of_json (dict_get doc ''inclusion'')) (\<lambda>i.
       bind_err (bool_of_json (dict_get doc ''selected'')) (\<lambda>s.
       bind_err (bool_of_json (dict_get doc ''selected-by-default'')) (\<lambda>sd.
         Inr \<lparr>inclusion = i, selected = s, selected_by_default = sd\<rparr>)))"
    by (rule Metadata_from_dict_keys)
  show "StreamMetadata_from_dict (JObj doc) =
       bind_err (inclusion_of_json (dict_get doc ''inclusion'')) (\<lambda>i.
       bind_err (bool_of_json (dict_get doc ''selected'')) (\<lambda>s.
       bind_err (bool_of_json (dict_get doc ''selected-by-default'')) (\<lambda>sd.
       bind_err (strs_of_json (dict_get doc ''table-key-properties'')) (\<lambda>tkp.
       bind_err (str_of_json (dict_get doc ''forced-replication-method'')) (\<lambda>frm.
       bind_err (strs_of_json (dict_get doc ''valid-replication-keys'')) (\<lambda>vrk.
       bind_err (str_of_json (dict_get doc ''schema-name'')) (\<lambda>sn.
         Inr \<lparr>inclusion = i, selected = s, selected_by_default = sd,
              table_key_properties = tkp, forced_replication_method = frm,
              valid_replication_keys = vrk, schema_name = sn\<rparr>)))))))"
    by (rule StreamMetadata_from_dict_keys)
qed

theorem metadata_mapping_roundtrip_witness:
  "distinct (map fst
     [([], Stream (StreamMetadata_init\<lparr>selected := Some False, table_key_properties := Some [''id'']\<rparr>)),
      ([''properties'', ''id''], Plain (Metadata_init\<lparr>inclusion := Some AUTOMATIC\<rparr>))])
   \<and> (\<exists>mapping. from_iterable (JList (to_list
     [([], Stream (StreamMetadata_init\<lparr>selected := Some False, table_key_properties := Some [''id'']\<rparr>)),
      ([''properties'', ''id''], Plain (Metadata_init\<lparr>inclusion := Some AUTOMATIC\<rparr>))])) = Inr mapping
     \<and> map fst mapping = [[], [''properties'', ''id'']]
     \<and> map_of mapping [] = Some (Stream (StreamMetadata_init\<lparr>selected := Some False, table_key_properties := Some [''id'']\<rparr>))
     \<and> map_of mapping [''properties'', ''id''] = Some (Plain (Metadata_init\<lparr>inclusion := Some AUTOMATIC\<rparr>)))
   \<and> to_dict (Stream (StreamMetadata_init\<lparr>selected_by_default := Some False,
                         table_key_properties := Some [''id'']\<rparr>))
       = [(''selected-by-default'', JBool False), (''table-key-properties'', JList [JStr ''id''])]
   \<and> Metadata_from_dict (JObj [(''selected-by-default'', JBool True)])
       = Inr (Metadata_init\<lparr>selected_by_default := Some True\<rparr>)
   \<and> Metadata_from_dict (JObj [(''selected_by_default'', JBool True)]) = Inr Metadata_init"
proof -
  let ?root = "Stream (StreamMetadata_init\<lparr>selected := Some False, table_key_properties := Some [''id'']\<rparr>)"
  let ?field = "Plain (Metadata_init\<lparr>inclusion := Some AUTOMATIC\<rparr>)"
  let ?self = "[([], ?root), ([''properties'', ''id''], ?field)]"
  have keys: "distinct (map fst ?self)"
    by simp
  note instance1 = metadata_mapping_roundtrip
    [OF keys,
     where q = "StreamMetadata_init\<lparr>selected_by_default := Some False,
                  table_key_properties := Some [''id'']\<rparr>"
       and doc = "[(''selected-by-default'', JBool True)]"]
  note instance2 = metadata_mapping_roundtrip
    [OF keys, where doc = "[(''selected_by_default'', JBool True)]"]
  from instance1[THEN conjunct1] obtain mapping where
    parsed: "from_iterable (JList (to_list ?self)) = Inr mapping"
    and same_keys: "map fst mapping = map fst ?self"
    and root: "\<forall>s. map_of ?self [] = Some (Stream s) \<longrightarrow> map_of mapping [] = Some (Stream s)"
    and field: "\<forall>b m. b \<noteq> [] \<and> map_of ?self b = Some (Plain m) \<longrightarrow>
                  map_of mapping b = Some (Plain m)"
    by blast
  from root have at_root: "map_of mapping [] = Some ?root"
    by simp
  from field[rule_format, of "[''properties'', ''id'']" "Metadata_init\<lparr>inclusion := Some AUTOMATIC\<rparr>"]
  have at_field: "map_of mapping [''properties'', ''id''] = Some ?field"
    by simp
  from instance1[THEN conjunct2, THEN conjunct2, THEN conjunct1]
  have written: "to_dict (Stream (StreamMetadata_init\<lparr>selected_by_default := Some False,
                         table_key_properties := Some [''id'']\<rparr>))
       = [(''selected-by-default'', JBool False), (''table-key-properties'', JList [JStr ''id''])]"
    by (simp add: StreamMetadata_init_def json_of_inclusion_def json_of_bool_def
          json_of_str_def json_of_strs_def)
  from instance1[THEN conjunct2, THEN conjunct2, THEN conjunct2, THEN conjunct1]
  have read_hyphen: "Metadata_from_dict (JObj [(''selected-by-default'', JBool True)])
       = Inr (Metadata_init\<lparr>selected_by_default := Some True\<rparr>)"
    by (simp add: dict_get_def bind_err_def Metadata_init_def)
  from instance2[THEN conjunct2, THEN conjunct2, THEN conjunct2, THEN conjunct1]
  have read_underscore: "Metadata_from_dict (JObj [(''selected_by_default'', JBool True)])
       = Inr Metadata_init"
    by (simp add: dict_get_def bind_err_def Metadata_init_def)
  from keys parsed same_keys at_root at_field written read_hyphen read_underscore
  show ?thesis
    by simp
qed


section \<open>The seed mapping built from a schema\<close>

lemma seed_loop_root:
  "map_of (foldl (\<lambda>mapping field_name. dict_set mapping [''properties'', field_name] (f field_name))
             acc names) [] = map_of acc []"
  by (induction names arbitrary: acc) (simp_all add: map_of_dict_set)

lemma seed_loop_field:
  "map_of (foldl (\<lambda>mapping field_name. dict_set mapping [''properties'', field_name] (f field_name))
             acc names) [''properties'', name]
   = (if name \<in> set names then Some (f name) else map_of acc [''properties'', name])"
  by (induction names arbitrary: acc) (simp_all add: map_of_dict_set)

lemma seed_loop_keys:
  "fst ` set (foldl (\<lambda>mapping field_name. dict_set mapping [''properties'', field_name] (f field_name))
             acc names)
   = fst ` set acc \<union> (\<lambda>name. [''properties'', name]) ` set names"
  by (induction names arbitrary: acc) (simp_all add: dict_set_keys)


text \<open>
  C10. For a schema that is not empty and whose \<open>properties\<close> entry is absent or a
  \<open>dict\<close> (\<open>names\<close> are then its keys, none when it is absent), \<open>get_standard_metadata\<close>
  returns a mapping: its root record has inclusion \<open>available\<close> and the key properties,
  replication method and valid replication keys it was given; every property name has an
  entry at \<open>("properties", name)\<close> whose inclusion is \<open>automatic\<close> when the name is among
  the key properties and \<open>available\<close> otherwise; there are no other entries, and without
  a \<open>properties\<close> entry the mapping holds the root record alone.
\<close>

theorem standard_metadata_seed:
  assumes "sch \<noteq> []" and "schema_property_names sch = Inr names"
  shows "\<exists>mapping root.
       get_standard_metadata (Some sch) sn kp vrk rm = Inr mapping
     \<and> map_of mapping [] = Some (Stream root)
     \<and> inclusion root = Some AVAILABLE
     \<and> table_key_properties root = kp
     \<and> forced_replication_method root = rm
     \<and> valid_replication_keys root = vrk
     \<and> (\<forall>name \<in> set names.
           map_of mapping [''properties'', name] =
             Some (Plain \<lparr>inclusion =
                            Some (if (\<exists>ks. kp = Some ks \<and> name \<in> set ks)
                                  then AUTOMATIC else AVAILABLE),
                          selected = None, selected_by_default = None\<rparr>))
     \<and> fst ` set mapping = insert [] ((\<lambda>name. [''properties'', name]) ` set names)
     \<and> (map_of sch ''properties'' = None \<longrightarrow> mapping = [([], Stream root)])"
proof -
  let ?entry = "\<lambda>field_name.
      Plain (if (case kp of None \<Rightarrow> False | Some ks \<Rightarrow> ks \<noteq> [] \<and> field_name \<in> set ks)
             then Metadata_init\<lparr>inclusion := Some AUTOMATIC\<rparr>
             else Metadata_init\<lparr>inclusion := Some AVAILABLE\<rparr>)"
  let ?fields = "foldl (\<lambda>mapping field_name.
      dict_set mapping [''properties'', field_name] (?entry field_name)) [] names"
  let ?root1 = "\<lparr>inclusion = Some AVAILABLE, selected = None, selected_by_default = None,
                 table_key_properties = kp, forced_replication_method = rm,
                 valid_replication_keys = vrk, schema_name = None\<rparr>"
  let ?root = "case sn of None \<Rightarrow> ?root1
               | Some n \<Rightarrow> if n \<noteq> [] then ?root1\<lparr>schema_name := Some n\<rparr> else ?root1"
  let ?mapping = "dict_set ?fields [] (Stream ?root)"
  have result: "get_standard_metadata (Some sch) sn kp vrk rm = Inr ?mapping"
    using assms
    by (cases sn) (simp_all add: get_standard_metadata_def bind_err_def Let_def)
  have at_root: "map_of ?mapping [] = Some (Stream ?root)"
    by (simp add: map_of_dict_set)
  have root_fields: "inclusion ?root = Some AVAILABLE" "table_key_properties ?root = kp"
    "forced_replication_method ?root = rm" "valid_replication_keys ?root = vrk"
    by (simp_all split: option.splits)
  have at_field: "map_of ?mapping [''properties'', name] =
      Some (Plain \<lparr>inclusion = Some (if (\<exists>ks. kp = Some ks \<and> name \<in> set ks)
                                      then AUTOMATIC else AVAILABLE),
                   selected = None, selected_by_default = None\<rparr>)"
    if "name \<in> set names" for name
  proof -
    have "map_of ?mapping [''properties'', name] = Some (?entry name)"
      using that by (simp add: map_of_dict_set seed_loop_field)
    also have "?entry name =
      Plain \<lparr>inclusion = Some (if (\<exists>ks. kp = Some ks \<and> name \<in> set ks)
                                then AUTOMATIC else AVAILABLE),
             selected = None, selected_by_default = None\<rparr>"
      by (cases kp) (auto simp: Metadata_init_def)
    finally show ?thesis .
  qed
  have keys: "fst ` set ?mapping = insert [] ((\<lambda>name. [''properties'', name]) ` set names)"
    by (simp add: dict_set_keys seed_loop_keys)
  have no_listing: "?mapping = [([], Stream ?root)]" if "map_of sch ''properties'' = None"
  proof -
    from that assms(2) have "names = []"
      by (simp add: schema_property_names_def)
    then show ?thesis by simp
  qed
  show ?thesis
  proof (intro exI conjI ballI impI)
    show "get_standard_metadata (Some sch) sn kp vrk rm = Inr ?mapping"
      by (rule result)
    show "map_of ?mapping [] = Some (Stream ?root)"
      by (rule at_root)
    show "inclusion ?root = Some AVAILABLE" "table_key_properties ?root = kp"
      "forced_replication_method ?root = rm" "valid_replication_keys ?root = vrk"
      by (rule root_fields)+
    show "map_of ?mapping [''properties'', name] =
        Some (Plain \<lparr>inclusion = Some (if (\<exists>ks. kp = Some ks \<and> name \<in> set ks)
                                        then AUTOMATIC else AVAILABLE),
                     selected = None, selected_by_default = None\<rparr>)"
      if "name \<in> set names" for name
      using that by (rule at_field)
    show "fst ` set ?mapping = insert [] ((\<lambda>name. [''properties'', name]) ` set names)"
      by (rule keys)
    show "?mapping = [([], Stream ?root)]" if "map_of sch ''properties'' = None"
      using that by (rule no_listing)
  qed
qed

theorem standard_metadata_seed_witness:
  "[(''properties'', JObj [(''id'', JObj []), (''name'', JObj [])])] \<noteq> []
   \<and> schema_property_names [(''properties'', JObj [(''id'', JObj []), (''name'', JObj [])])]
       = Inr [''id'', ''name'']
   \<and> get_standard_metadata
        (Some [(''properties'', JObj [(''id'', JObj []), (''name'', JObj [])])])
        None (Some [''id'']) None None
      = Inr [([''properties'', ''id''],
              Plain \<lparr>inclusion = Some AUTOMATIC, selected = None, selected_by_default = None\<rparr>),
             ([''properties'', ''name''],
              Plain \<lparr>inclusion = Some AVAILABLE, selected = None, selected_by_default = None\<rparr>),
             ([], Stream \<lparr>inclusion = Some AVAILABLE, selected = None,
                    selected_by_default = None, table_key_properties = Some [''id''],
                    forced_replication_method = None, valid_replication_keys = None,
                    schema_name = None\<rparr>)]"
  using standard_metadata_seed
          [of "[(''properties'', JObj [(''id'', JObj []), (''name'', JObj [])])]"
              "[''id'', ''name'']" None "Some [''id'']" None None]
  by (simp add: schema_property_names_def get_standard_metadata_def bind_err_def
        Metadata_init_def)

section \<open>Parsing a catalog entry\<close>

text \<open>
  C9, as stated, fails: an identity that is not a string is accepted. \<open>from_dict\<close>
  subscripts the document and stores what it finds.
\<close>

theorem non_string_identity_accepted:
  "CatalogEntry_from_dict SchemaPlus_from_dict [(''tap_stream_id'', JInt 5)] =
        Inr \<lparr>tap_stream_id = JInt 5, metadata = [], schema = JObj [], stream = JNull,
             key_properties = JNull, replication_key = JNull, is_view = JNull,
             database = JNull, table = JNull, row_count = JNull, stream_alias = JNull,
             replication_method = JNull\<rparr>"
  by (simp add: CatalogEntry_from_dict_def bind_err_def dict_get_default_def dict_get_def
        from_iterable_def SchemaPlus_from_dict_def)

text \<open>
  C9, amended. When the document has no \<open>tap_stream_id\<close> key, \<open>from_dict\<close> fails with
  \<open>KeyError('tap_stream_id')\<close>, which reaches the caller. When the key is present,
  whatever its value, and every other field is omitted, parsing succeeds as soon as the
  schema parser accepts the empty schema document: the optional fields are \<open>None\<close> and
  the metadata mapping is empty.
\<close>

theorem catalog_entry_identity:
  "(map_of stream' ''tap_stream_id'' = None \<longrightarrow>
      CatalogEntry_from_dict parse_schema stream' = Inl (KeyError ''tap_stream_id''))
   \<and> (parse_schema (JObj []) = Inr sch \<longrightarrow>
      CatalogEntry_from_dict parse_schema [(''tap_stream_id'', tid)] =
        Inr \<lparr>tap_stream_id = tid, metadata = [], schema = sch, stream = JNull,
             key_properties = JNull, replication_key = JNull, is_view = JNull,
             database = JNull, table = JNull, row_count = JNull, stream_alias = JNull,
             replication_method = JNull\<rparr>)"
proof (intro conjI impI)
  assume "map_of stream' ''tap_stream_id'' = None"
  then show "CatalogEntry_from_dict parse_schema stream' = Inl (KeyError ''tap_stream_id'')"
    by (simp add: CatalogEntry_from_dict_def bind_err_def)
next
  assume "parse_schema (JObj []) = Inr sch"
  then show "CatalogEntry_from_dict parse_schema [(''tap_stream_id'', tid)] =
        Inr \<lparr>tap_stream_id = tid, metadata = [], schema = sch, stream = JNull,
             key_properties = JNull, replication_key = JNull, is_view = JNull,
             database = JNull, table = JNull, row_count = JNull, stream_alias = JNull,
             replication_method = JNull\<rparr>"
    by (simp add: CatalogEntry_from_dict_def bind_err_def dict_get_default_def dict_get_def
          from_iterable_def)
qed

theorem catalog_entry_identity_witness:
  "map_of [(''stream'', JStr ''users'')] ''tap_stream_id'' = None
   \<and> CatalogEntry_from_dict SchemaPlus_from_dict [(''stream'', JStr ''users'')]
       = Inl (KeyError ''tap_stream_id'')
   \<and> SchemaPlus_from_dict (JObj []) = Inr (JObj [])
   \<and> CatalogEntry_from_dict SchemaPlus_from_dict [(''tap_stream_id'', JStr ''users'')] =
        Inr \<lparr>tap_stream_id = JStr ''users'', metadata = [], schema = JObj [], stream = JNull,
             key_properties = JNull, replication_key = JNull, is_view = JNull,
             database = JNull, table = JNull, row_count = JNull, stream_alias = JNull,
             replication_method = JNull\<rparr>"
  using catalog_entry_identity
          [of "[(''stream'', JStr ''users'')]" SchemaPlus_from_dict "JObj []" "JStr ''users''"]
  by (simp add: SchemaPlus_from_dict_def)

end
